theory Spec2Isabelle
  imports Main "HOL-Library.Sublist"
begin

section \<open>Values and exceptions of the interpreter\<close>

text \<open>
  The handlers of \<^verbatim>\<open>src/notion_mcp/server.py\<close> work on the parsed JSON that the
  Notion client returns and build plain dictionaries from it. A value is a JSON tree; a
  dictionary keeps its entries in insertion order, as a Python \<^verbatim>\<open>dict\<close> does, so it is
  an association list (a Python dictionary never holds a key twice; lookups take the
  first entry). JSON numbers are integers here: a float behaves like an integer in every
  operation the handlers perform. A string is a list of characters.
\<close>

datatype json =
    JNull
  | JBool bool
  | JInt int
  | JStr string
  | JList "json list"
  | JDict "(string \<times> json) list"

text \<open>
  Exceptions are values. \<open>APIResponseError\<close> is the typed error of the Notion client;
  all other kinds are subclasses of \<^verbatim>\<open>Exception\<close> that are not \<^verbatim>\<open>APIResponseError\<close>.
  The string is what \<^verbatim>\<open>str(e)\<close> gives (for interpreter errors, CPython 3.12's wording).
\<close>

datatype exn_kind =
  APIResponseError | KeyError | IndexError | TypeError | AttributeError | OtherException

datatype exn = Exn exn_kind string

fun str_exn :: "exn \<Rightarrow> string" where
  "str_exn (Exn k m) = m"

fun is_api_error :: "exn \<Rightarrow> bool" where
  "is_api_error (Exn k m) = (k = APIResponseError)"

definition bnd :: "exn + 'a \<Rightarrow> ('a \<Rightarrow> exn + 'b) \<Rightarrow> exn + 'b" where
  "bnd m f = (case m of Inl e \<Rightarrow> Inl e | Inr x \<Rightarrow> f x)"

definition quoted :: "string \<Rightarrow> string" where
  "quoted s = CHR 0x27 # s @ [CHR 0x27]"

fun type_name :: "json \<Rightarrow> string" where
  "type_name JNull = ''NoneType''"
| "type_name (JBool b) = ''bool''"
| "type_name (JInt i) = ''int''"
| "type_name (JStr s) = ''str''"
| "type_name (JList xs) = ''list''"
| "type_name (JDict kvs) = ''dict''"

fun show_nat :: "nat \<Rightarrow> string" where
  "show_nat n =
     (if n < 10 then [char_of (48 + n)]
      else show_nat (n div 10) @ [char_of (48 + n mod 10)])"

text \<open>Truth value of an object, as \<^verbatim>\<open>if x:\<close> tests it.\<close>

fun truthy :: "json \<Rightarrow> bool" where
  "truthy JNull = False"
| "truthy (JBool b) = b"
| "truthy (JInt i) = (i \<noteq> 0)"
| "truthy (JStr s) = (s \<noteq> [])"
| "truthy (JList xs) = (xs \<noteq> [])"
| "truthy (JDict kvs) = (kvs \<noteq> [])"

text \<open>\<^verbatim>\<open>obj.get(key, default)\<close>: only a dictionary has the method.\<close>

fun py_get :: "json \<Rightarrow> json \<Rightarrow> json \<Rightarrow> exn + json" where
  "py_get (JDict kvs) (JStr k) d = Inr (case map_of kvs k of None \<Rightarrow> d | Some v \<Rightarrow> v)"
| "py_get (JDict kvs) (JList xs) d = Inl (Exn TypeError (''unhashable type: '' @ quoted ''list''))"
| "py_get (JDict kvs) (JDict ys) d = Inl (Exn TypeError (''unhashable type: '' @ quoted ''dict''))"
| "py_get (JDict kvs) key d = Inr d"
| "py_get v key d =
     Inl (Exn AttributeError
       (quoted (type_name v) @ '' object has no attribute '' @ quoted ''get''))"

text \<open>\<^verbatim>\<open>obj.items()\<close>.\<close>

fun py_items :: "json \<Rightarrow> exn + (string \<times> json) list" where
  "py_items (JDict kvs) = Inr kvs"
| "py_items v =
     Inl (Exn AttributeError
       (quoted (type_name v) @ '' object has no attribute '' @ quoted ''items''))"

text \<open>\<^verbatim>\<open>obj["k"]\<close> for a string literal \<open>k\<close>.\<close>

fun py_getitem :: "json \<Rightarrow> string \<Rightarrow> exn + json" where
  "py_getitem (JDict kvs) k =
     (case map_of kvs k of None \<Rightarrow> Inl (Exn KeyError (quoted k)) | Some v \<Rightarrow> Inr v)"
| "py_getitem (JList xs) k =
     Inl (Exn TypeError ''list indices must be integers or slices, not str'')"
| "py_getitem (JStr s) k =
     Inl (Exn TypeError (''string indices must be integers, not '' @ quoted ''str''))"
| "py_getitem v k =
     Inl (Exn TypeError (quoted (type_name v) @ '' object is not subscriptable''))"

text \<open>\<^verbatim>\<open>obj[0]\<close>.\<close>

fun py_getitem0 :: "json \<Rightarrow> exn + json" where
  "py_getitem0 (JList []) = Inl (Exn IndexError ''list index out of range'')"
| "py_getitem0 (JList (x # xs)) = Inr x"
| "py_getitem0 (JStr []) = Inl (Exn IndexError ''string index out of range'')"
| "py_getitem0 (JStr (c # cs)) = Inr (JStr [c])"
| "py_getitem0 (JDict kvs) = Inl (Exn KeyError ''0'')"
| "py_getitem0 v =
     Inl (Exn TypeError (quoted (type_name v) @ '' object is not subscriptable''))"

text \<open>
  \<^verbatim>\<open>"k" in obj\<close> for a string literal \<open>k\<close>: key membership in a dictionary, element
  membership in a list, substring test in a string.
\<close>

fun py_contains :: "string \<Rightarrow> json \<Rightarrow> exn + bool" where
  "py_contains k (JDict kvs) = Inr (k \<in> set (map fst kvs))"
| "py_contains k (JList xs) = Inr (JStr k \<in> set xs)"
| "py_contains k (JStr s) = Inr (sublist k s)"
| "py_contains k v =
     Inl (Exn TypeError (''argument of type '' @ quoted (type_name v) @ '' is not iterable''))"

text \<open>\<^verbatim>\<open>for x in obj\<close>: the elements of a list, the keys of a dictionary, the characters of a string.\<close>

fun py_iter :: "json \<Rightarrow> exn + json list" where
  "py_iter (JList xs) = Inr xs"
| "py_iter (JDict kvs) = Inr (map (\<lambda>kv. JStr (fst kv)) kvs)"
| "py_iter (JStr s) = Inr (map (\<lambda>c. JStr [c]) s)"
| "py_iter v = Inl (Exn TypeError (quoted (type_name v) @ '' object is not iterable''))"

text \<open>A list comprehension \<^verbatim>\<open>[f(x) for x in xs]\<close>: the first exception ends it.\<close>

fun map_exn :: "('a \<Rightarrow> exn + 'b) \<Rightarrow> 'a list \<Rightarrow> exn + 'b list" where
  "map_exn f [] = Inr []"
| "map_exn f (x # xs) =
     (case f x of Inl e \<Rightarrow> Inl e
      | Inr y \<Rightarrow> (case map_exn f xs of Inl e \<Rightarrow> Inl e | Inr ys \<Rightarrow> Inr (y # ys)))"

text \<open>\<^verbatim>\<open>"".join(xs)\<close>: every item must be a string; \<open>i\<close> is the index of the head.\<close>

fun py_join :: "nat \<Rightarrow> json list \<Rightarrow> exn + string" where
  "py_join i [] = Inr []"
| "py_join i (JStr s # rest) =
     (case py_join (Suc i) rest of Inl e \<Rightarrow> Inl e | Inr t \<Rightarrow> Inr (s @ t))"
| "py_join i (v # rest) =
     Inl (Exn TypeError
       (''sequence item '' @ show_nat i @ '': expected str instance, '' @ type_name v @ '' found''))"

text \<open>
  \<^verbatim>\<open>str(x)\<close>, as an f-string applies it: a string is itself; the printed form of any
  other value is the builtin's, passed in as \<open>repr\<close>.
\<close>

fun py_str :: "(json \<Rightarrow> string) \<Rightarrow> json \<Rightarrow> string" where
  "py_str repr (JStr s) = s"
| "py_str repr v = repr v"


section \<open>The remote service\<close>

text \<open>
  A call of the Notion client is its endpoint with its keyword arguments. The client is
  any function from the calls made so far and the present call to a response or an
  exception; a handler's run records the calls it makes, in order.
\<close>

type_synonym kwargs = "(string \<times> json) list"

datatype call =
    Search kwargs
  | PagesCreate kwargs
  | PagesRetrieve kwargs
  | PagesUpdate kwargs
  | BlocksChildrenList kwargs
  | BlocksChildrenAppend kwargs

type_synonym client = "call list \<Rightarrow> call \<Rightarrow> exn + json"

type_synonym 'a io = "call list \<Rightarrow> (exn + 'a) \<times> call list"

definition io_return :: "'a \<Rightarrow> 'a io" where
  "io_return x = (\<lambda>log. (Inr x, log))"

definition io_lift :: "exn + 'a \<Rightarrow> 'a io" where
  "io_lift r = (\<lambda>log. (r, log))"

definition io_bind :: "'a io \<Rightarrow> ('a \<Rightarrow> 'b io) \<Rightarrow> 'b io" where
  "io_bind m f =
     (\<lambda>log. case m log of (Inl e, log') \<Rightarrow> (Inl e, log') | (Inr x, log') \<Rightarrow> f x log')"

definition remote :: "client \<Rightarrow> call \<Rightarrow> json io" where
  "remote notion c = (\<lambda>log. (notion log c, log @ [c]))"

section \<open>Result envelopes and request payloads\<close>

text \<open>
  The two \<^verbatim>\<open>except\<close> clauses that close every tool handler:
  \<^verbatim>\<open>except APIResponseError as e\<close> first, \<^verbatim>\<open>except Exception as e\<close> second.
\<close>

definition except_clauses :: "exn \<Rightarrow> json" where
  "except_clauses e =
     (if is_api_error e
      then JDict [(''success'', JBool False), (''error'', JStr (''Notion API error: '' @ str_exn e))]
      else JDict [(''success'', JBool False), (''error'', JStr (str_exn e))])"

text \<open>A tool handler: the \<^verbatim>\<open>try\<close> body run from an empty record of calls, then the clauses.\<close>

definition run_handler :: "json io \<Rightarrow> json \<times> call list" where
  "run_handler body =
     (case body [] of (Inl e, log) \<Rightarrow> (except_clauses e, log) | (Inr v, log) \<Rightarrow> (v, log))"

definition title_properties :: "string \<Rightarrow> json" where
  "title_properties title =
     JDict [(''title'', JDict [(''title'',
       JList [JDict [(''text'', JDict [(''content'', JStr title)])]])])]"

definition paragraph_block :: "string \<Rightarrow> json" where
  "paragraph_block content =
     JDict [(''object'', JStr ''block''), (''type'', JStr ''paragraph''),
       (''paragraph'', JDict [(''rich_text'',
          JList [JDict [(''type'', JStr ''text''),
                        (''text'', JDict [(''content'', JStr content)])]])])]"

definition page_filter :: json where
  "page_filter = JDict [(''property'', JStr ''object''), (''value'', JStr ''page'')]"

text \<open>
  The success dictionary of \<open>create_page\<close>, \<open>update_page\<close> and \<open>create_database_entry\<close>:
  \<^verbatim>\<open>{"success": True, "page_id": response["id"], "url": response["url"], "message": m}\<close>.
\<close>

definition page_result :: "string \<Rightarrow> json \<Rightarrow> exn + json" where
  "page_result message response =
     bnd (py_getitem response ''id'') (\<lambda>i.
     bnd (py_getitem response ''url'') (\<lambda>u.
     Inr (JDict [(''success'', JBool True), (''page_id'', i), (''url'', u),
                 (''message'', JStr message)])))"

section \<open>Title extraction\<close>

text \<open>\<^verbatim>\<open>prop_value["title"][0]["plain_text"]\<close>.\<close>

definition first_plain_text :: "json \<Rightarrow> exn + json" where
  "first_plain_text prop_value =
     bnd (py_getitem prop_value ''title'') (\<lambda>t.
     bnd (py_getitem0 t) (\<lambda>fragment.
     py_getitem fragment ''plain_text''))"

text \<open>
  The loop over \<^verbatim>\<open>page["properties"].items()\<close> with its \<^verbatim>\<open>break\<close>; \<open>title\<close> starts as
  \<^verbatim>\<open>"Untitled"\<close>. The loop is the same text in \<open>search_pages\<close> (lines 172-175),
  \<open>get_page_content\<close> (222-225) and \<open>get_recent_pages\<close> (456-459).
\<close>

fun scan_title :: "(string \<times> json) list \<Rightarrow> exn + json" where
  "scan_title [] = Inr (JStr ''Untitled'')"
| "scan_title ((prop_name, prop_value) # rest) =
     (case py_get prop_value (JStr ''type'') JNull of
        Inl e \<Rightarrow> Inl e
      | Inr ty \<Rightarrow>
          if ty = JStr ''title'' then
            (case py_get prop_value (JStr ''title'') JNull of
               Inl e \<Rightarrow> Inl e
             | Inr t \<Rightarrow> if truthy t then first_plain_text prop_value else scan_title rest)
          else scan_title rest)"

text \<open>Lines 220-225 of \<open>get_page_content\<close> and 454-459 of \<open>get_recent_pages\<close>.\<close>

definition page_title :: "json \<Rightarrow> exn + json" where
  "page_title page =
     bnd (py_contains ''properties'' page) (\<lambda>has_properties.
     if has_properties then
       bnd (py_getitem page ''properties'') (\<lambda>properties.
       bnd (py_items properties) scan_title)
     else Inr (JStr ''Untitled''))"

text \<open>
  Lines 165-175 of \<open>search_pages\<close>: the property named \<^verbatim>\<open>"title"\<close> first; the scan is
  the \<^verbatim>\<open>elif\<close> branch, taken only when that property is absent.
\<close>

definition search_page_title :: "json \<Rightarrow> exn + json" where
  "search_page_title page =
     bnd (py_contains ''properties'' page) (\<lambda>has_properties.
     bnd (if has_properties
          then bnd (py_getitem page ''properties'') (py_contains ''title'')
          else Inr False) (\<lambda>has_title.
     if has_title then
       bnd (py_getitem page ''properties'') (\<lambda>properties.
       bnd (py_getitem properties ''title'') (\<lambda>title_property.
       bnd (py_get title_property (JStr ''title'') JNull) (\<lambda>t.
       if truthy t then first_plain_text title_property else Inr (JStr ''Untitled''))))
     else
       bnd (py_contains ''properties'' page) (\<lambda>has_properties'.
       if has_properties' then
         bnd (py_getitem page ''properties'') (\<lambda>properties.
         bnd (py_items properties) scan_title)
       else Inr (JStr ''Untitled''))))"

section \<open>The tool handlers\<close>

subsection \<open>\<open>create_page\<close>\<close>

definition create_page_message :: "string \<Rightarrow> string" where
  "create_page_message title = ''Page '' @ quoted title @ '' created successfully''"

definition no_parent_error :: string where
  "no_parent_error =
     ''No parent page specified and no existing pages found. Please provide a parent_page_id.''"

text \<open>
  The \<^verbatim>\<open>else\<close> branch of lines 103-119: no usable \<open>parent_page_id\<close>. The placeholder
  parent built at line 63 is never sent: line 110 replaces it, or the handler returns.
\<close>

definition create_page_search_parent :: "client \<Rightarrow> string \<Rightarrow> string \<Rightarrow> json io" where
  "create_page_search_parent notion title content =
     io_bind (remote notion (Search [(''filter'', page_filter), (''page_size'', JInt 1)]))
       (\<lambda>search_results.
     io_bind (io_lift (py_get search_results (JStr ''results'') JNull)) (\<lambda>found.
     if truthy found then
       io_bind (io_lift
         (bnd (py_getitem search_results ''results'') (\<lambda>results.
          bnd (py_getitem0 results) (\<lambda>hit. py_getitem hit ''id'')))) (\<lambda>parent_id.
       io_bind (remote notion (PagesCreate
         [(''parent'', JDict [(''page_id'', parent_id)]),
          (''properties'', title_properties title),
          (''children'', JList [paragraph_block content])])) (\<lambda>response.
       io_lift (page_result (create_page_message title) response)))
     else
       io_return (JDict [(''error'', JStr no_parent_error)])))"

definition create_page_body :: "client \<Rightarrow> string \<Rightarrow> string \<Rightarrow> string option \<Rightarrow> json io" where
  "create_page_body notion title content parent_page_id =
     (case parent_page_id of
        None \<Rightarrow> create_page_search_parent notion title content
      | Some p \<Rightarrow>
          if p \<noteq> [] then
            io_bind (remote notion (PagesCreate
              [(''parent'', JDict [(''page_id'', JStr p)]),
               (''properties'', title_properties title),
               (''children'', JList [paragraph_block content])])) (\<lambda>response.
            io_lift (page_result (create_page_message title) response))
          else create_page_search_parent notion title content)"

definition create_page :: "client \<Rightarrow> string \<Rightarrow> string \<Rightarrow> string option \<Rightarrow> json \<times> call list" where
  "create_page notion title content parent_page_id =
     run_handler (create_page_body notion title content parent_page_id)"

subsection \<open>\<open>search_pages\<close>\<close>

text \<open>One turn of the loop of lines 164-182: the entry appended for \<open>page\<close>.\<close>

definition search_entry :: "json \<Rightarrow> exn + json" where
  "search_entry page =
     bnd (search_page_title page) (\<lambda>title.
     bnd (py_getitem page ''id'') (\<lambda>i.
     bnd (py_getitem page ''url'') (\<lambda>u.
     bnd (py_get page (JStr ''last_edited_time'') (JStr ''Unknown'')) (\<lambda>edited.
     Inr (JDict [(''id'', i), (''title'', title), (''url'', u), (''last_edited'', edited)])))))"

fun search_loop :: "json list \<Rightarrow> json list \<Rightarrow> exn + json list" where
  "search_loop results [] = Inr results"
| "search_loop results (page # rest) =
     (case search_entry page of
        Inl e \<Rightarrow> Inl e
      | Inr entry \<Rightarrow> search_loop (results @ [entry]) rest)"

definition search_call :: "string \<Rightarrow> int \<Rightarrow> call" where
  "search_call query page_size =
     Search [(''query'', JStr query), (''filter'', page_filter), (''page_size'', JInt page_size)]"

definition search_pages_body :: "client \<Rightarrow> string \<Rightarrow> int \<Rightarrow> json io" where
  "search_pages_body notion query page_size =
     io_bind (remote notion (search_call query page_size)) (\<lambda>response.
     io_lift
       (bnd (py_get response (JStr ''results'') (JList [])) (\<lambda>hits.
        bnd (py_iter hits) (\<lambda>pages.
        bnd (search_loop [] pages) (\<lambda>results.
        Inr (JDict [(''success'', JBool True),
                    (''count'', JInt (int (length results))),
                    (''results'', JList results)]))))))"

definition search_pages :: "client \<Rightarrow> string \<Rightarrow> int \<Rightarrow> json \<times> call list" where
  "search_pages notion query page_size = run_handler (search_pages_body notion query page_size)"

subsection \<open>\<open>get_page_content\<close>\<close>

text \<open>
  One turn of the loop of lines 232-246: the entry appended for \<open>block\<close>, or none when
  the block has no \<^verbatim>\<open>rich_text\<close> or its text is empty.
\<close>

definition block_entry :: "json \<Rightarrow> exn + json option" where
  "block_entry block =
     bnd (py_get block (JStr ''type'') JNull) (\<lambda>block_type.
     bnd (py_get block block_type (JDict [])) (\<lambda>block_content.
     bnd (py_contains ''rich_text'' block_content) (\<lambda>has_rich_text.
     if has_rich_text then
       bnd (py_getitem block_content ''rich_text'') (\<lambda>rich_text.
       bnd (py_iter rich_text) (\<lambda>fragments.
       bnd (map_exn (\<lambda>rt. py_get rt (JStr ''plain_text'') (JStr [])) fragments) (\<lambda>parts.
       bnd (py_join 0 parts) (\<lambda>text.
       if text \<noteq> []
       then Inr (Some (JDict [(''type'', block_type), (''text'', JStr text)]))
       else Inr None))))
     else Inr None)))"

fun content_loop :: "json list \<Rightarrow> json list \<Rightarrow> exn + json list" where
  "content_loop content_blocks [] = Inr content_blocks"
| "content_loop content_blocks (block # rest) =
     (case block_entry block of
        Inl e \<Rightarrow> Inl e
      | Inr None \<Rightarrow> content_loop content_blocks rest
      | Inr (Some entry) \<Rightarrow> content_loop (content_blocks @ [entry]) rest)"

definition retrieve_call :: "string \<Rightarrow> call" where
  "retrieve_call page_id = PagesRetrieve [(''page_id'', JStr page_id)]"

definition list_call :: "string \<Rightarrow> call" where
  "list_call page_id = BlocksChildrenList [(''block_id'', JStr page_id)]"

definition get_page_content_body :: "client \<Rightarrow> string \<Rightarrow> json io" where
  "get_page_content_body notion page_id =
     io_bind (remote notion (retrieve_call page_id)) (\<lambda>page.
     io_bind (io_lift (page_title page)) (\<lambda>title.
     io_bind (remote notion (list_call page_id)) (\<lambda>blocks_response.
     io_lift
       (bnd (py_get blocks_response (JStr ''results'') (JList [])) (\<lambda>listed.
        bnd (py_iter listed) (\<lambda>blocks.
        bnd (content_loop [] blocks) (\<lambda>content_blocks.
        bnd (py_getitem page ''url'') (\<lambda>u.
        bnd (py_get page (JStr ''last_edited_time'') JNull) (\<lambda>edited.
        Inr (JDict [(''success'', JBool True), (''page_id'', JStr page_id),
                    (''title'', title), (''url'', u),
                    (''content'', JList content_blocks),
                    (''last_edited'', edited)]))))))))))"

definition get_page_content :: "client \<Rightarrow> string \<Rightarrow> json \<times> call list" where
  "get_page_content notion page_id = run_handler (get_page_content_body notion page_id)"

subsection \<open>\<open>append_to_page\<close>\<close>

definition append_to_page_body :: "client \<Rightarrow> string \<Rightarrow> string \<Rightarrow> json io" where
  "append_to_page_body notion page_id content =
     io_bind (remote notion (BlocksChildrenAppend
       [(''block_id'', JStr page_id), (''children'', JList [paragraph_block content])]))
       (\<lambda>ignored.
     io_return (JDict [(''success'', JBool True),
                       (''message'', JStr (''Content appended to page '' @ page_id))]))"

definition append_to_page :: "client \<Rightarrow> string \<Rightarrow> string \<Rightarrow> json \<times> call list" where
  "append_to_page notion page_id content = run_handler (append_to_page_body notion page_id content)"

subsection \<open>\<open>update_page\<close>\<close>

text \<open>Lines 339-355: the dictionary \<open>update_data\<close>, a key for each argument that is not \<^verbatim>\<open>None\<close>.\<close>

definition update_data :: "string option \<Rightarrow> bool option \<Rightarrow> kwargs" where
  "update_data title archived =
     (case title of None \<Rightarrow> [] | Some t \<Rightarrow> [(''properties'', title_properties t)]) @
     (case archived of None \<Rightarrow> [] | Some a \<Rightarrow> [(''archived'', JBool a)])"

definition update_call :: "string \<Rightarrow> kwargs \<Rightarrow> call" where
  "update_call page_id data = PagesUpdate ((''page_id'', JStr page_id) # data)"

definition update_page_body :: "client \<Rightarrow> string \<Rightarrow> string option \<Rightarrow> bool option \<Rightarrow> json io" where
  "update_page_body notion page_id title archived =
     (if update_data title archived = [] then
        io_return (JDict [(''success'', JBool False),
                          (''error'', JStr ''No update parameters provided'')])
      else
        io_bind (remote notion (update_call page_id (update_data title archived))) (\<lambda>response.
        io_lift (page_result ''Page updated successfully'' response)))"

definition update_page ::
  "client \<Rightarrow> string \<Rightarrow> string option \<Rightarrow> bool option \<Rightarrow> json \<times> call list" where
  "update_page notion page_id title archived =
     run_handler (update_page_body notion page_id title archived)"

subsection \<open>\<open>create_database_entry\<close>\<close>

definition create_database_entry_body :: "client \<Rightarrow> string \<Rightarrow> kwargs \<Rightarrow> json io" where
  "create_database_entry_body notion database_id properties =
     io_bind (remote notion (PagesCreate
       [(''parent'', JDict [(''database_id'', JStr database_id)]),
        (''properties'', JDict properties)])) (\<lambda>response.
     io_lift (page_result ''Database entry created successfully'' response))"

definition create_database_entry :: "client \<Rightarrow> string \<Rightarrow> kwargs \<Rightarrow> json \<times> call list" where
  "create_database_entry notion database_id properties =
     run_handler (create_database_entry_body notion database_id properties)"

section \<open>The resource \<open>get_recent_pages\<close>\<close>

definition recent_call :: call where
  "recent_call =
     Search [(''filter'', page_filter),
             (''sort'', JDict [(''direction'', JStr ''descending''),
                               (''timestamp'', JStr ''last_edited_time'')]),
             (''page_size'', JInt 20)]"

text \<open>One turn of the loop of lines 453-464: the four lines appended for \<open>page\<close>.\<close>

definition recent_lines :: "(json \<Rightarrow> string) \<Rightarrow> json \<Rightarrow> exn + string list" where
  "recent_lines repr page =
     bnd (page_title page) (\<lambda>title.
     bnd (py_getitem page ''id'') (\<lambda>i.
     bnd (py_getitem page ''url'') (\<lambda>u.
     bnd (py_get page (JStr ''last_edited_time'') (JStr ''Unknown'')) (\<lambda>edited.
     Inr [''- **'' @ py_str repr title @ ''**'',
          ''  - ID: '' @ [CHR 0x60] @ py_str repr i @ [CHR 0x60],
          ''  - URL: '' @ py_str repr u,
          ''  - Last edited: '' @ py_str repr edited @ [CHR 0x0A]]))))"

fun recent_loop :: "(json \<Rightarrow> string) \<Rightarrow> string list \<Rightarrow> json list \<Rightarrow> exn + string list" where
  "recent_loop repr output [] = Inr output"
| "recent_loop repr output (page # rest) =
     (case recent_lines repr page of
        Inl e \<Rightarrow> Inl e
      | Inr lines \<Rightarrow> recent_loop repr (output @ lines) rest)"

text \<open>\<^verbatim>\<open>"\n".join(output)\<close> on a list of strings.\<close>

fun join_lines :: "string list \<Rightarrow> string" where
  "join_lines [] = []"
| "join_lines [l] = l"
| "join_lines (l # m # ls) = l @ [CHR 0x0A] @ join_lines (m # ls)"

definition get_recent_pages_body :: "(json \<Rightarrow> string) \<Rightarrow> client \<Rightarrow> string io" where
  "get_recent_pages_body repr notion =
     io_bind (remote notion recent_call) (\<lambda>response.
     io_lift
       (bnd (py_get response (JStr ''results'') (JList [])) (\<lambda>hits.
        bnd (py_iter hits) (\<lambda>pages.
        bnd (recent_loop repr [''# Recently Edited Pages'' @ [CHR 0x0A]] pages) (\<lambda>output.
        Inr (join_lines output))))))"

text \<open>The single clause \<^verbatim>\<open>except Exception as e\<close> of lines 468-470.\<close>

definition get_recent_pages :: "(json \<Rightarrow> string) \<Rightarrow> client \<Rightarrow> string \<times> call list" where
  "get_recent_pages repr notion =
     (case get_recent_pages_body repr notion [] of
        (Inl e, log) \<Rightarrow> (''Error retrieving recent pages: '' @ str_exn e, log)
      | (Inr text, log) \<Rightarrow> (text, log))"

section \<open>The registered tools\<close>

text \<open>
  The six functions registered with \<^verbatim>\<open>@mcp.tool()\<close>, with the arguments of their
  signatures; \<open>call_tool\<close> is the invocation of one of them by name.
\<close>

datatype tool_call =
    CreatePage string string "string option"
  | SearchPages string int
  | GetPageContent string
  | AppendToPage string string
  | UpdatePage string "string option" "bool option"
  | CreateDatabaseEntry string kwargs

fun call_tool :: "client \<Rightarrow> tool_call \<Rightarrow> json \<times> call list" where
  "call_tool notion (CreatePage title content parent_page_id) =
     create_page notion title content parent_page_id"
| "call_tool notion (SearchPages query page_size) = search_pages notion query page_size"
| "call_tool notion (GetPageContent page_id) = get_page_content notion page_id"
| "call_tool notion (AppendToPage page_id content) = append_to_page notion page_id content"
| "call_tool notion (UpdatePage page_id title archived) = update_page notion page_id title archived"
| "call_tool notion (CreateDatabaseEntry database_id properties) =
     create_database_entry notion database_id properties"

text \<open>The \<^verbatim>\<open>try\<close> body of each tool, before its \<^verbatim>\<open>except\<close> clauses.\<close>

fun tool_body :: "client \<Rightarrow> tool_call \<Rightarrow> json io" where
  "tool_body notion (CreatePage title content parent_page_id) =
     create_page_body notion title content parent_page_id"
| "tool_body notion (SearchPages query page_size) = search_pages_body notion query page_size"
| "tool_body notion (GetPageContent page_id) = get_page_content_body notion page_id"
| "tool_body notion (AppendToPage page_id content) = append_to_page_body notion page_id content"
| "tool_body notion (UpdatePage page_id title archived) =
     update_page_body notion page_id title archived"
| "tool_body notion (CreateDatabaseEntry database_id properties) =
     create_database_entry_body notion database_id properties"

section \<open>Reading a result\<close>

fun field :: "string \<Rightarrow> json \<Rightarrow> json option" where
  "field k (JDict kvs) = map_of kvs k"
| "field k v = None"

definition has_bool_success :: "json \<Rightarrow> bool" where
  "has_bool_success r = (case field ''success'' r of Some (JBool b) \<Rightarrow> True | _ \<Rightarrow> False)"

definition error_contains :: "string \<Rightarrow> json \<Rightarrow> bool" where
  "error_contains s r = (case field ''error'' r of Some (JStr m) \<Rightarrow> sublist s m | _ \<Rightarrow> False)"

definition results_of :: "json \<Rightarrow> json list" where
  "results_of r = (case field ''results'' r of Some (JList rs) \<Rightarrow> rs | _ \<Rightarrow> [])"

section \<open>Sample workspaces\<close>

text \<open>A workspace without pages: every search answers with an empty list.\<close>

definition no_pages_client :: client where
  "no_pages_client log c = Inr (JDict [(''object'', JStr ''list''), (''results'', JList [])])"

text \<open>
  A database row whose text column is named \<^verbatim>\<open>title\<close> and whose title column is named
  \<^verbatim>\<open>Name\<close>.
\<close>

definition renamed_title_page :: json where
  "renamed_title_page =
     JDict [(''id'', JStr ''p1''), (''url'', JStr ''https://www.notion.so/p1''),
       (''properties'', JDict
          [(''title'', JDict [(''id'', JStr ''a1''), (''type'', JStr ''rich_text''),
                              (''rich_text'', JList [])]),
           (''Name'', JDict [(''id'', JStr ''title''), (''type'', JStr ''title''),
                             (''title'', JList [JDict [(''plain_text'', JStr ''Roadmap'')]])])])]"

definition renamed_title_client :: client where
  "renamed_title_client log c =
     (case c of
        Search kw \<Rightarrow> Inr (JDict [(''results'', JList [renamed_title_page])])
      | PagesRetrieve kw \<Rightarrow> Inr renamed_title_page
      | _ \<Rightarrow> Inr (JDict [(''results'', JList [])]))"

text \<open>A remote that answers a search with six hits, whatever \<open>page_size\<close> asks for.\<close>

definition plain_hit :: json where
  "plain_hit = JDict [(''id'', JStr ''p''), (''url'', JStr ''u'')]"

definition six_hits_client :: client where
  "six_hits_client log c = Inr (JDict [(''results'', JList (replicate 6 plain_hit))])"

text \<open>A remote whose page retrieval answers 404.\<close>

definition not_found_client :: client where
  "not_found_client log c =
     (case c of
        PagesRetrieve kw \<Rightarrow> Inl (Exn APIResponseError ''Could not find page'')
      | _ \<Rightarrow> Inr (JDict [(''results'', JList [])]))"

text \<open>A remote that accepts every update.\<close>

definition echo_client :: client where
  "echo_client log c = Inr (JDict [(''id'', JStr ''p1''), (''url'', JStr ''https://www.notion.so/p1'')])"

text \<open>A remote whose answers carry an id but no url.\<close>

definition no_url_client :: client where
  "no_url_client log c = Inr (JDict [(''id'', JStr ''p1'')])"

text \<open>
  The row of \<open>renamed_title_page\<close> with a title of two fragments, "Road" and "map".
\<close>

definition renamed_two_fragment_page :: json where
  "renamed_two_fragment_page =
     JDict [(''id'', JStr ''p1''), (''url'', JStr ''https://www.notion.so/p1''),
       (''properties'', JDict
          [(''title'', JDict [(''id'', JStr ''a1''), (''type'', JStr ''rich_text''),
                              (''rich_text'', JList [])]),
           (''Name'', JDict [(''id'', JStr ''title''), (''type'', JStr ''title''),
                             (''title'', JList [JDict [(''plain_text'', JStr ''Road'')],
                                                JDict [(''plain_text'', JStr ''map'')]])])])]"

definition renamed_two_fragment_client :: client where
  "renamed_two_fragment_client log c =
     (case c of
        Search kw \<Rightarrow> Inr (JDict [(''results'', JList [renamed_two_fragment_page])])
      | PagesRetrieve kw \<Rightarrow> Inr renamed_two_fragment_page
      | _ \<Rightarrow> Inr (JDict [(''results'', JList [])]))"

section \<open>Block text, as specified\<close>

text \<open>
  The block-text contract in the words of the specification: a block carries a type tag
  and a sub-object of the same name; if the sub-object has a \<open>rich_text\<close> field, a
  sequence of fragments, the text is the concatenation of the fragments' \<open>plain_text\<close>
  in order, and an empty concatenation is no text.
\<close>

definition fragment_text :: "json \<Rightarrow> string" where
  "fragment_text fragment =
     (case field ''plain_text'' fragment of Some (JStr s) \<Rightarrow> s | _ \<Rightarrow> [])"

definition extractBlockText :: "json \<Rightarrow> string option" where
  "extractBlockText block =
     (case field ''type'' block of
        Some (JStr tag) \<Rightarrow>
          (case field tag block of
             Some sub \<Rightarrow>
               (case field ''rich_text'' sub of
                  Some (JList fragments) \<Rightarrow>
                    (let text = concat (map fragment_text fragments)
                     in if text = [] then None else Some text)
                | _ \<Rightarrow> None)
           | None \<Rightarrow> None)
      | _ \<Rightarrow> None)"

text \<open>What the caller shows of a block that has text: its type tag and the text.\<close>

definition block_view :: "json \<Rightarrow> json" where
  "block_view block =
     JDict [(''type'', case field ''type'' block of Some tag \<Rightarrow> tag | None \<Rightarrow> JNull),
            (''text'', JStr (case extractBlockText block of Some text \<Rightarrow> text | None \<Rightarrow> []))]"

text \<open>A page with three child blocks, the second with an empty \<open>rich_text\<close>.\<close>

definition text_block :: "string \<Rightarrow> string list \<Rightarrow> json" where
  "text_block tag texts =
     JDict [(''object'', JStr ''block''), (''type'', JStr tag),
            (tag, JDict [(''rich_text'',
               JList (map (\<lambda>s. JDict [(''type'', JStr ''text''), (''plain_text'', JStr s)]) texts))])]"

definition three_blocks :: "json list" where
  "three_blocks =
     [text_block ''heading_1'' [''Plan''],
      text_block ''paragraph'' [],
      text_block ''paragraph'' [''first '', ''second'']]"

definition three_blocks_client :: client where
  "three_blocks_client log c =
     (case c of
        PagesRetrieve kw \<Rightarrow>
          Inr (JDict [(''id'', JStr ''p1''), (''url'', JStr ''https://www.notion.so/p1'')])
      | _ \<Rightarrow> Inr (JDict [(''results'', JList three_blocks)]))"

section \<open>Pages, as specified\<close>

text \<open>
  The data model of the specification: the \<open>properties\<close> of a page map a property name
  to a typed descriptor, a dictionary with a \<open>type\<close> tag; the title is held, as a
  sequence of fragments, by the descriptor whose tag is \<^verbatim>\<open>"title"\<close>, so a descriptor
  carries a \<open>title\<close> field only under that tag.
\<close>

definition title_tagged :: "json \<Rightarrow> bool" where
  "title_tagged descriptor = (field ''type'' descriptor = Some (JStr ''title''))"

definition title_sequence :: "json \<Rightarrow> json" where
  "title_sequence descriptor =
     (case field ''title'' descriptor of None \<Rightarrow> JNull | Some t \<Rightarrow> t)"

definition properties_of :: "json \<Rightarrow> (string \<times> json) list" where
  "properties_of page =
     (case field ''properties'' page of Some (JDict properties) \<Rightarrow> properties | _ \<Rightarrow> [])"

fun typed_descriptor :: "json \<Rightarrow> bool" where
  "typed_descriptor (JDict d) =
     (map_of d ''title'' = None \<or> map_of d ''type'' = Some (JStr ''title''))"
| "typed_descriptor v = False"

fun external_object :: "json \<Rightarrow> bool" where
  "external_object (JDict kvs) =
     (case map_of kvs ''properties'' of
        None \<Rightarrow> True
      | Some (JDict properties) \<Rightarrow> list_all typed_descriptor (map snd properties)
      | Some v \<Rightarrow> False)"
| "external_object v = False"

text \<open>No entry is title-tagged, or the title-tagged entries have an empty title sequence.\<close>

definition lacks_title :: "json \<Rightarrow> bool" where
  "lacks_title page =
     list_all (\<lambda>descriptor. \<not> title_tagged descriptor \<or> \<not> truthy (title_sequence descriptor))
       (map snd (properties_of page))"

text \<open>A page whose title property, named \<open>name\<close>, holds one fragment for each text.\<close>

definition titled_page :: "string \<Rightarrow> string list \<Rightarrow> json" where
  "titled_page name texts =
     JDict [(''id'', JStr ''p1''), (''url'', JStr ''https://www.notion.so/p1''),
       (''properties'', JDict
          [(name, JDict [(''id'', JStr ''title''), (''type'', JStr ''title''),
             (''title'', JList (map (\<lambda>s. JDict [(''plain_text'', JStr s)]) texts))])])]"

text \<open>The same page with every title sequence cut down to its first fragment.\<close>

definition keep_first :: "json \<Rightarrow> json" where
  "keep_first v = (case v of JList xs \<Rightarrow> JList (take 1 xs) | _ \<Rightarrow> v)"

definition descriptor_first_fragment :: "json \<Rightarrow> json" where
  "descriptor_first_fragment descriptor =
     (case descriptor of
        JDict d \<Rightarrow> JDict (map (\<lambda>(k, v). (k, if k = ''title'' then keep_first v else v)) d)
      | _ \<Rightarrow> descriptor)"

definition properties_first_fragment :: "json \<Rightarrow> json" where
  "properties_first_fragment properties =
     (case properties of
        JDict ps \<Rightarrow> JDict (map (\<lambda>(name, descriptor). (name, descriptor_first_fragment descriptor)) ps)
      | _ \<Rightarrow> properties)"

definition page_first_fragment :: "json \<Rightarrow> json" where
  "page_first_fragment page =
     (case page of
        JDict kvs \<Rightarrow>
          JDict (map (\<lambda>(k, v). (k, if k = ''properties'' then properties_first_fragment v else v)) kvs)
      | _ \<Rightarrow> page)"

section \<open>Evaluation rules\<close>

lemmas io_defs = io_bind_def io_return_def io_lift_def remote_def run_handler_def

lemma sublist_parent: "sublist ''parent'' no_parent_error"
  unfolding no_parent_error_def by (simp add: sublist_Cons_right)

section \<open>\<open>create_page\<close> without a parent\<close>

text \<open>
  Whenever no usable \<open>parent_page_id\<close> is given and the fallback search finds nothing,
  \<open>create_page\<close> returns the dictionary of lines 117-119 after the one search call:
  no page is created, and the message names the parent.
\<close>

lemma create_page_no_parent:
  assumes "parent_page_id = None \<or> parent_page_id = Some []"
    and "notion [] (Search [(''filter'', page_filter), (''page_size'', JInt 1)]) = Inr found"
    and "py_get found (JStr ''results'') JNull = Inr hits"
    and "\<not> truthy hits"
  shows "create_page notion title content parent_page_id =
           (JDict [(''error'', JStr no_parent_error)],
            [Search [(''filter'', page_filter), (''page_size'', JInt 1)]])"
  using assms
  by (auto simp add: create_page_def create_page_body_def create_page_search_parent_def
      io_defs bnd_def)

text \<open>
  Claim C1: every tool handler returns a dictionary with a boolean \<open>success\<close> field, for
  every input and every response of the remote service. In a workspace without pages,
  \<open>create_page\<close> called without a parent returns a dictionary that has no \<open>success\<close>
  key at all: the early return of lines 117-119 leaves it out.
\<close>

theorem create_page_early_return_lacks_success:
  "\<not> has_bool_success (fst (create_page no_pages_client ''Notes'' ''hello'' None))"
  by (simp add: create_page_def create_page_body_def create_page_search_parent_def io_defs
      no_pages_client_def has_bool_success_def bnd_def)

text \<open>
  Claim C2: \<open>create_page\<close> without \<open>parent_page_id\<close>, when the fallback search returns
  no page, returns a failure envelope with \<open>success\<close> false and an error naming the
  parent, and creates no page. On the empty workspace the handler makes the search call
  only and its error names the parent, but the dictionary returned is
  \<^verbatim>\<open>{"error": ...}\<close> alone, so its \<open>success\<close> field is not false but missing.
\<close>

theorem create_page_no_parent_on_empty_workspace:
  "create_page no_pages_client ''Notes'' ''hello'' None =
     (JDict [(''error'', JStr no_parent_error)],
      [Search [(''filter'', page_filter), (''page_size'', JInt 1)]])
   \<and> error_contains ''parent'' (fst (create_page no_pages_client ''Notes'' ''hello'' None))
   \<and> field ''success'' (fst (create_page no_pages_client ''Notes'' ''hello'' None)) = None"
  by (simp add: create_page_def create_page_body_def create_page_search_parent_def io_defs
      no_pages_client_def bnd_def error_contains_def sublist_parent)

lemma success_except: "field ''success'' (except_clauses e) = Some (JBool False)"
  by (simp add: except_clauses_def)

section \<open>\<open>update_page\<close>: the update payload\<close>

lemma sublist_no_update: "sublist ''No update parameters'' ''No update parameters provided''"
proof -
  have "''No update parameters provided'' = ''No update parameters'' @ '' provided''" by simp
  then show ?thesis by (simp only: sublist_append_rightI)
qed

text \<open>
  Claim C5: \<open>update_page\<close> with neither \<open>title\<close> nor \<open>archived\<close> returns the failure
  envelope whose error contains "No update parameters" and calls the remote not at all;
  when at least one of them is supplied, the single update call carries, besides the
  page id, exactly the supplied fields: \<open>properties\<close> (the title payload) if and only if
  \<open>title\<close> is given, \<open>archived\<close> if and only if \<open>archived\<close> is given, and nothing else.
\<close>

theorem update_page_parameters:
  "update_page notion page_id None None =
     (JDict [(''success'', JBool False), (''error'', JStr ''No update parameters provided'')], [])
   \<and> error_contains ''No update parameters'' (fst (update_page notion page_id None None))
   \<and> (title \<noteq> None \<or> archived \<noteq> None \<longrightarrow>
        snd (update_page notion page_id title archived) =
          [PagesUpdate ((''page_id'', JStr page_id) # update_data title archived)]
        \<and> map fst (update_data title archived) =
            (if title = None then [] else [''properties'']) @
            (if archived = None then [] else [''archived''])
        \<and> (\<forall>t. title = Some t \<longrightarrow>
              map_of (update_data title archived) ''properties'' = Some (title_properties t))
        \<and> (\<forall>a. archived = Some a \<longrightarrow>
              map_of (update_data title archived) ''archived'' = Some (JBool a)))"
proof -
  have none: "update_page notion page_id None None =
     (JDict [(''success'', JBool False), (''error'', JStr ''No update parameters provided'')], [])"
    by (simp add: update_page_def update_page_body_def update_data_def io_defs)
  have contains: "error_contains ''No update parameters'' (fst (update_page notion page_id None None))"
    by (simp only: none fst_conv error_contains_def field.simps map_of.simps)
       (simp add: sublist_no_update)
  have some: "title \<noteq> None \<or> archived \<noteq> None \<Longrightarrow>
        snd (update_page notion page_id title archived) =
          [PagesUpdate ((''page_id'', JStr page_id) # update_data title archived)]"
    by (auto simp add: update_page_def update_page_body_def update_data_def update_call_def io_defs
        split: sum.splits prod.splits)
  have payload: "map fst (update_data title archived) =
            (if title = None then [] else [''properties'']) @
            (if archived = None then [] else [''archived''])
        \<and> (\<forall>t. title = Some t \<longrightarrow>
              map_of (update_data title archived) ''properties'' = Some (title_properties t))
        \<and> (\<forall>a. archived = Some a \<longrightarrow>
              map_of (update_data title archived) ''archived'' = Some (JBool a))"
    by (auto simp add: update_data_def split: option.splits)
  from none contains some payload show ?thesis by blast
qed

theorem update_page_parameters_witness:
  "snd (update_page echo_client ''p1'' (Some ''Plan'') None) =
     [PagesUpdate [(''page_id'', JStr ''p1''), (''properties'', title_properties ''Plan'')]]
   \<and> map fst (update_data (Some ''Plan'') None) = [''properties'']"
  using update_page_parameters [of echo_client "''p1''" "Some ''Plan''" None]
  by (simp add: update_data_def)

section \<open>\<open>get_page_content\<close>: the order of the remote calls\<close>

text \<open>
  Claim C9: \<open>get_page_content\<close> makes the metadata call first and at most one further
  call, the listing of the child blocks; if the metadata call raises, the listing is
  never attempted, and a listing in the record of calls means that the metadata call
  returned.
\<close>

theorem get_page_content_calls:
  "(snd (get_page_content notion page_id) = [retrieve_call page_id]
     \<or> snd (get_page_content notion page_id) = [retrieve_call page_id, list_call page_id])
   \<and> (\<forall>e. notion [] (retrieve_call page_id) = Inl e \<longrightarrow>
          snd (get_page_content notion page_id) = [retrieve_call page_id])
   \<and> (list_call page_id \<in> set (snd (get_page_content notion page_id)) \<longrightarrow>
          (\<exists>page. notion [] (retrieve_call page_id) = Inr page))"
  by (auto simp add: get_page_content_def get_page_content_body_def io_defs retrieve_call_def
      list_call_def split: sum.splits prod.splits)

theorem get_page_content_calls_witness:
  "not_found_client [] (retrieve_call ''p9'') = Inl (Exn APIResponseError ''Could not find page'')
   \<and> snd (get_page_content not_found_client ''p9'') = [retrieve_call ''p9'']"
  using get_page_content_calls [of not_found_client "''p9''"]
  by (simp add: not_found_client_def retrieve_call_def)

section \<open>Exceptions in a tool handler\<close>

lemma call_tool_run: "call_tool notion req = run_handler (tool_body notion req)"
  by (cases req)
     (simp_all add: create_page_def search_pages_def get_page_content_def append_to_page_def
        update_page_def create_database_entry_def)

lemma run_handler_raise:
  "fst (body []) = Inl e \<Longrightarrow> fst (run_handler body) = except_clauses e"
  by (cases "body []") (auto simp add: run_handler_def)

lemma run_handler_log: "snd (run_handler body) = snd (body [])"
  by (cases "body []") (auto simp add: run_handler_def split: sum.splits)

lemmas body_defs = io_bind_def io_return_def io_lift_def remote_def

lemma remote_raise_propagates:
  assumes "i < length (snd (tool_body notion req []))"
    and "notion (take i (snd (tool_body notion req []))) (snd (tool_body notion req []) ! i) = Inl e"
  shows "fst (tool_body notion req []) = Inl e"
proof (cases req)
  case (CreatePage title content parent)
  have direct: "i < length (snd (io_bind (remote notion c) f [])) \<Longrightarrow>
      notion (take i (snd (io_bind (remote notion c) f []))) (snd (io_bind (remote notion c) f []) ! i) = Inl e \<Longrightarrow>
      fst (io_bind (remote notion c) f []) = Inl e"
    if "f = (\<lambda>response. io_lift (g response))" for c f and g :: "json \<Rightarrow> exn + json"
    using that by (auto simp add: body_defs less_Suc_eq split: sum.splits prod.splits)
  have fallback: "i < length (snd (create_page_search_parent notion title content [])) \<Longrightarrow>
      notion (take i (snd (create_page_search_parent notion title content [])))
        (snd (create_page_search_parent notion title content []) ! i) = Inl e \<Longrightarrow>
      fst (create_page_search_parent notion title content []) = Inl e"
    by (auto simp add: create_page_search_parent_def body_defs less_Suc_eq
        split: sum.splits prod.splits if_splits)
  from assms CreatePage direct [OF refl] fallback show ?thesis
    by (auto simp add: create_page_body_def split: option.splits if_splits)
next
  case (SearchPages q n)
  with assms show ?thesis
    by (auto simp add: search_pages_body_def body_defs less_Suc_eq split: sum.splits prod.splits)
next
  case (GetPageContent p)
  with assms show ?thesis
    by (auto simp add: get_page_content_body_def body_defs less_Suc_eq
        split: sum.splits prod.splits)
next
  case (AppendToPage p c)
  with assms show ?thesis
    by (auto simp add: append_to_page_body_def body_defs less_Suc_eq split: sum.splits prod.splits)
next
  case (UpdatePage p t a)
  with assms show ?thesis
    by (auto simp add: update_page_body_def body_defs less_Suc_eq
        split: sum.splits prod.splits if_splits)
next
  case (CreateDatabaseEntry d ps)
  with assms show ?thesis
    by (auto simp add: create_database_entry_body_def body_defs less_Suc_eq
        split: sum.splits prod.splits)
qed

text \<open>
  Claim C4: in each of the six tool handlers, whenever a call of the remote client raises
  (any call in the record, not only the last), and whenever any other exception is raised
  in the \<^verbatim>\<open>try\<close> body, the handler returns a failure envelope and nothing escapes: for the
  client's \<open>APIResponseError\<close> the error is "Notion API error: " followed by the message,
  for every other exception it is the message alone.
\<close>

theorem remote_failure_envelope:
  assumes "call_tool notion req = (r, log)"
    and "(\<exists>i < length log. notion (take i log) (log ! i) = Inl (Exn k m))
         \<or> fst (tool_body notion req []) = Inl (Exn k m)"
  shows "(k = APIResponseError \<longrightarrow>
            r = JDict [(''success'', JBool False), (''error'', JStr (''Notion API error: '' @ m))])
       \<and> (k \<noteq> APIResponseError \<longrightarrow>
            r = JDict [(''success'', JBool False), (''error'', JStr m)])"
proof -
  from assms(1) have log: "log = snd (tool_body notion req [])"
    by (simp add: call_tool_run run_handler_log [symmetric])
  from assms(2) log have "fst (tool_body notion req []) = Inl (Exn k m)"
    by (auto dest: remote_raise_propagates)
  then have "fst (call_tool notion req) = except_clauses (Exn k m)"
    by (simp add: call_tool_run run_handler_raise)
  with assms(1) show ?thesis by (simp add: except_clauses_def)
qed

text \<open>
  A 404 on the page retrieval gives the prefixed error; a response without \<open>url\<close> makes
  line 414 raise a \<open>KeyError\<close>, which gives the bare message.
\<close>

theorem remote_failure_envelope_witness:
  "call_tool not_found_client (GetPageContent ''p9'') =
     (JDict [(''success'', JBool False),
             (''error'', JStr ''Notion API error: Could not find page'')],
      [retrieve_call ''p9''])
   \<and> call_tool no_url_client (CreateDatabaseEntry ''db1'' []) =
     (JDict [(''success'', JBool False), (''error'', JStr (quoted ''url''))],
      [PagesCreate [(''parent'', JDict [(''database_id'', JStr ''db1'')]),
                    (''properties'', JDict [])]])"
proof -
  have run1: "call_tool not_found_client (GetPageContent ''p9'') =
      (fst (call_tool not_found_client (GetPageContent ''p9'')), [retrieve_call ''p9''])"
    by (simp add: get_page_content_def get_page_content_body_def io_defs retrieve_call_def
        not_found_client_def)
  have raised: "(\<exists>i < length [retrieve_call ''p9''].
        not_found_client (take i [retrieve_call ''p9'']) ([retrieve_call ''p9''] ! i) =
          Inl (Exn APIResponseError ''Could not find page''))
      \<or> fst (tool_body not_found_client (GetPageContent ''p9'') []) =
          Inl (Exn APIResponseError ''Could not find page'')"
    by (simp add: not_found_client_def retrieve_call_def)
  from remote_failure_envelope [OF run1 raised]
  have r1: "fst (call_tool not_found_client (GetPageContent ''p9'')) =
      JDict [(''success'', JBool False),
             (''error'', JStr ''Notion API error: Could not find page'')]"
    by simp
  let ?create = "PagesCreate [(''parent'', JDict [(''database_id'', JStr ''db1'')]),
                    (''properties'', JDict [])]"
  have run2: "call_tool no_url_client (CreateDatabaseEntry ''db1'' []) =
      (fst (call_tool no_url_client (CreateDatabaseEntry ''db1'' [])), [?create])"
    by (simp add: create_database_entry_def create_database_entry_body_def io_defs
        no_url_client_def page_result_def bnd_def)
  have local: "(\<exists>i < length [?create].
        no_url_client (take i [?create]) ([?create] ! i) = Inl (Exn KeyError (quoted ''url'')))
      \<or> fst (tool_body no_url_client (CreateDatabaseEntry ''db1'' []) []) =
          Inl (Exn KeyError (quoted ''url''))"
    by (simp add: create_database_entry_body_def body_defs no_url_client_def page_result_def
        bnd_def)
  from remote_failure_envelope [OF run2 local]
  have r2: "fst (call_tool no_url_client (CreateDatabaseEntry ''db1'' [])) =
      JDict [(''success'', JBool False), (''error'', JStr (quoted ''url''))]"
    by simp
  from run1 r1 run2 r2 show ?thesis by simp
qed

section \<open>Lookups in association lists\<close>

lemma map_of_Some_key: "map_of kvs k = Some v \<Longrightarrow> k \<in> fst ` set kvs"
  by (induction kvs) (auto split: if_splits)

lemma map_of_Some_val: "map_of kvs k = Some v \<Longrightarrow> v \<in> snd ` set kvs"
  by (induction kvs) (auto split: if_splits)

lemma map_of_map_values:
  "map_of (map (\<lambda>(k, v). (k, g k v)) kvs) k = map_option (g k) (map_of kvs k)"
  by (induction kvs) auto

section \<open>The \<open>success\<close> field\<close>

text \<open>
  Every result of \<open>search_pages\<close>, \<open>get_page_content\<close>, \<open>append_to_page\<close>, \<open>update_page\<close>
  and \<open>create_database_entry\<close> has a boolean \<open>success\<close> field; a result of \<open>create_page\<close>
  has one unless it is the early return of lines 117-119. \<open>get_recent_pages\<close> returns a
  string by its type.
\<close>

lemma success_first: "has_bool_success (JDict ((''success'', JBool b) # rest))"
  by (simp add: has_bool_success_def)

lemma except_has_success: "has_bool_success (except_clauses e)"
  by (simp add: except_clauses_def has_bool_success_def)

lemma page_result_has_success: "page_result m response = Inr r \<Longrightarrow> has_bool_success r"
  by (auto simp add: page_result_def bnd_def success_first split: sum.splits)

lemma search_pages_has_success: "has_bool_success (fst (search_pages notion query page_size))"
  by (auto simp add: search_pages_def search_pages_body_def io_defs bnd_def except_has_success
      success_first split: sum.splits prod.splits)

lemma get_page_content_has_success: "has_bool_success (fst (get_page_content notion page_id))"
  by (auto simp add: get_page_content_def get_page_content_body_def io_defs bnd_def
      except_has_success success_first split: sum.splits prod.splits)

lemma append_to_page_has_success: "has_bool_success (fst (append_to_page notion page_id content))"
  by (auto simp add: append_to_page_def append_to_page_body_def io_defs except_has_success
      success_first split: sum.splits prod.splits)

lemma update_page_has_success: "has_bool_success (fst (update_page notion page_id title archived))"
  by (auto simp add: update_page_def update_page_body_def io_defs except_has_success
      success_first dest: page_result_has_success split: sum.splits prod.splits)

lemma create_database_entry_has_success:
  "has_bool_success (fst (create_database_entry notion database_id properties))"
  by (auto simp add: create_database_entry_def create_database_entry_body_def io_defs
      except_has_success dest: page_result_has_success split: sum.splits prod.splits)

lemma create_page_success_or_early_return:
  "has_bool_success (fst (create_page notion title content parent_page_id))
   \<or> fst (create_page notion title content parent_page_id) = JDict [(''error'', JStr no_parent_error)]"
  by (auto simp add: create_page_def create_page_body_def create_page_search_parent_def io_defs
      except_has_success dest: page_result_has_success
      split: sum.splits prod.splits option.splits if_splits)

section \<open>\<open>search_pages\<close>: the number of results\<close>

text \<open>
  Claim C6: \<open>search_pages\<close> with \<open>page_size = 5\<close> returns at most five entries in
  \<open>results\<close>, whatever the remote answers, and \<open>count\<close> is the length of \<open>results\<close>. The
  handler's docstring calls \<open>page_size\<close> the "Maximum number of results to return", but
  lines 156-188 never cut the hits down: from a remote that answers with six hits the
  handler returns six entries, with \<open>count\<close> six.
\<close>

theorem search_pages_six_results_for_page_size_five:
  "length (results_of (fst (search_pages six_hits_client ''notes'' 5))) = 6
   \<and> field ''count'' (fst (search_pages six_hits_client ''notes'' 5)) = Some (JInt 6)
   \<and> \<not> int (length (results_of (fst (search_pages six_hits_client ''notes'' 5)))) \<le> 5"
  by (simp add: search_pages_def search_pages_body_def search_call_def io_defs six_hits_client_def
      search_entry_def search_page_title_def plain_hit_def bnd_def results_of_def numeral_eq_Suc)

text \<open>
  What holds for every call: the one remote call carries \<open>page_size\<close> unchanged, and a
  success result has one entry for each hit of the response, with \<open>count\<close> their number.
\<close>

lemma search_pages_call:
  "snd (search_pages notion query page_size) =
     [Search [(''query'', JStr query), (''filter'', page_filter),
              (''page_size'', JInt page_size)]]"
  by (auto simp add: search_pages_def search_pages_body_def search_call_def io_defs
      split: sum.splits prod.splits)

lemma search_loop_length:
  "search_loop acc pages = Inr rs \<Longrightarrow> length rs = length acc + length pages"
  by (induction pages arbitrary: acc) (auto split: sum.splits)

lemma search_pages_count:
  assumes "field ''success'' (fst (search_pages notion query page_size)) = Some (JBool True)"
  shows "snd (search_pages notion query page_size) =
           [Search [(''query'', JStr query), (''filter'', page_filter),
                    (''page_size'', JInt page_size)]]
       \<and> (\<exists>response hits pages.
             notion [] (search_call query page_size) = Inr response
           \<and> py_get response (JStr ''results'') (JList []) = Inr hits
           \<and> py_iter hits = Inr pages
           \<and> length (results_of (fst (search_pages notion query page_size))) = length pages
           \<and> field ''count'' (fst (search_pages notion query page_size)) =
               Some (JInt (int (length (results_of (fst (search_pages notion query page_size))))))
           \<and> (int (length pages) \<le> page_size \<longrightarrow>
                int (length (results_of (fst (search_pages notion query page_size)))) \<le> page_size))"
  using assms
  by (auto simp add: search_pages_def search_pages_body_def search_call_def io_defs bnd_def
      except_clauses_def results_of_def
      split: sum.splits prod.splits if_splits dest: search_loop_length)

section \<open>\<open>get_page_content\<close>: the content blocks\<close>

lemma join_parts:
  "map_exn (\<lambda>rt. py_get rt (JStr ''plain_text'') (JStr [])) frs = Inr parts \<Longrightarrow>
   py_join i parts = Inr joined \<Longrightarrow> joined = concat (map fragment_text frs)"
proof (induction frs arbitrary: parts i joined)
  case Nil
  then show ?case by simp
next
  case (Cons fr frs)
  then show ?case 
    by (cases fr) (auto simp: fragment_text_def split: sum.splits option.splits json.splits)
qed

lemma no_rich_text:
  "py_contains ''rich_text'' c = Inr False \<Longrightarrow> field ''rich_text'' c = None"
  by (cases c) (auto simp add: map_of_eq_None_iff)

lemma map_exn_get_keys:
  "map_exn (\<lambda>rt. py_get rt (JStr ''plain_text'') (JStr [])) (map (\<lambda>kv. JStr (fst kv)) kvs) = Inr parts
     \<Longrightarrow> kvs = []"
  by (cases kvs) auto

lemma map_exn_get_chars:
  "map_exn (\<lambda>rt. py_get rt (JStr ''plain_text'') (JStr [])) (map (\<lambda>c. JStr [c]) s) = Inr parts
     \<Longrightarrow> s = []"
  by (cases s) auto

lemma rich_text_joined:
  assumes "py_getitem c ''rich_text'' = Inr rich" and "py_iter rich = Inr frs"
    and "map_exn (\<lambda>rt. py_get rt (JStr ''plain_text'') (JStr [])) frs = Inr parts"
    and "py_join 0 parts = Inr joined"
  shows "(case field ''rich_text'' c of
            Some (JList fragments) \<Rightarrow> concat (map fragment_text fragments) | _ \<Rightarrow> []) = joined"
proof -
  from assms(1) obtain d where c: "c = JDict d" and rich: "map_of d ''rich_text'' = Some rich"
    by (cases c) (auto split: option.splits)
  show ?thesis
  proof (cases rich)
    case (JList xs)
    with assms c rich show ?thesis by (auto dest: join_parts)
  next
    case (JDict kvs)
    with assms c rich have "kvs = []" by (auto dest: map_exn_get_keys)
    with JDict assms c rich show ?thesis by auto
  next
    case (JStr s)
    with assms c rich have "s = []" by (auto dest: map_exn_get_chars)
    with JStr assms c rich show ?thesis by auto
  qed (use assms in auto)
qed

lemma block_entry_spec:
  assumes "block_entry b = Inr r"
  shows "r = (if extractBlockText b = None then None else Some (block_view b))"
proof -
  from assms obtain kvs where b: "b = JDict kvs"
    by (cases b) (auto simp add: block_entry_def bnd_def)
  from assms b obtain block_type where ty: "py_get b (JStr ''type'') JNull = Inr block_type"
    by (auto simp add: block_entry_def bnd_def)
  from assms ty obtain c where c: "py_get b block_type (JDict []) = Inr c"
    by (auto simp add: block_entry_def bnd_def split: sum.splits)
  from assms ty c obtain has where has: "py_contains ''rich_text'' c = Inr has"
    by (auto simp add: block_entry_def bnd_def split: sum.splits)
  have sub: "extractBlockText b =
      (case field ''rich_text'' c of
         Some (JList fragments) \<Rightarrow>
           (if concat (map fragment_text fragments) = [] then None
            else Some (concat (map fragment_text fragments)))
       | _ \<Rightarrow> None)"
    using b ty c by (cases block_type) (auto simp add: extractBlockText_def Let_def split: option.splits json.splits)
  show ?thesis
  proof (cases has)
    case False
    with has have "field ''rich_text'' c = None" by (simp add: no_rich_text)
    with assms ty c has False sub show ?thesis
      by (simp add: block_entry_def bnd_def)
  next
    case True
    with assms ty c has obtain rich frs parts joined where
      steps: "py_getitem c ''rich_text'' = Inr rich" "py_iter rich = Inr frs"
        "map_exn (\<lambda>rt. py_get rt (JStr ''plain_text'') (JStr [])) frs = Inr parts"
        "py_join 0 parts = Inr joined"
      and r: "r = (if joined \<noteq> [] then Some (JDict [(''type'', block_type), (''text'', JStr joined)]) else None)"
      by (auto simp add: block_entry_def bnd_def split: sum.splits if_splits)
    from rich_text_joined [OF steps] have j:
      "(case field ''rich_text'' c of
            Some (JList fragments) \<Rightarrow> concat (map fragment_text fragments) | _ \<Rightarrow> []) = joined" .
    show ?thesis
    proof (cases "joined = []")
      case True
      with r j sub show ?thesis by (auto split: option.splits json.splits)
    next
      case False
      with j sub have e: "extractBlockText b = Some joined"
        by (auto split: option.splits json.splits)
      from b ty have "field ''type'' b = Some block_type \<or> (field ''type'' b = None \<and> block_type = JNull)"
        by (auto split: option.splits)
      moreover from e have "field ''type'' b \<noteq> None" 
        by (auto simp add: extractBlockText_def split: option.splits)
      ultimately show ?thesis using False r e by (auto simp add: block_view_def)
    qed
  qed
qed

lemma content_loop_spec:
  "content_loop acc blocks = Inr cs \<Longrightarrow>
   cs = acc @ map block_view (filter (\<lambda>b. extractBlockText b \<noteq> None) blocks)"
proof (induction blocks arbitrary: acc)
  case Nil
  then show ?case by simp
next
  case (Cons b blocks)
  from Cons.prems obtain r where r: "block_entry b = Inr r"
    by (auto split: sum.splits)
  note spec = block_entry_spec [OF r]
  show ?case
  proof (cases "extractBlockText b")
    case None
    with spec r Cons.prems have "content_loop acc blocks = Inr cs" by simp
    from Cons.IH [OF this] None show ?thesis by simp
  next
    case (Some t)
    with spec r Cons.prems have "content_loop (acc @ [block_view b]) blocks = Inr cs" by simp
    from Cons.IH [OF this] Some show ?thesis by simp
  qed
qed

text \<open>
  Claim C7: when the listing of the child blocks returns a sequence of blocks, the
  \<open>content\<close> of the success envelope of \<open>get_page_content\<close> holds exactly the blocks
  whose concatenated \<open>rich_text\<close> plain text is not empty, each as its type and text, in
  their original order.
\<close>

theorem get_page_content_blocks:
  assumes "field ''success'' (fst (get_page_content notion page_id)) = Some (JBool True)"
    and "notion [retrieve_call page_id] (list_call page_id) = Inr blocks_response"
    and "py_get blocks_response (JStr ''results'') (JList []) = Inr (JList blocks)"
  shows "field ''content'' (fst (get_page_content notion page_id)) =
           Some (JList (map block_view (filter (\<lambda>b. extractBlockText b \<noteq> None) blocks)))"
  using assms
  by (auto simp add: get_page_content_def get_page_content_body_def io_defs bnd_def
      success_except split: sum.splits prod.splits dest: content_loop_spec)

text \<open>
  Of three child blocks, the second with an empty \<open>rich_text\<close>, two remain, in order.
\<close>

theorem get_page_content_blocks_witness:
  "field ''content'' (fst (get_page_content three_blocks_client ''p1'')) =
     Some (JList [JDict [(''type'', JStr ''heading_1''), (''text'', JStr ''Plan'')],
                  JDict [(''type'', JStr ''paragraph''), (''text'', JStr ''first second'')]])"
proof -
  have ok: "field ''success'' (fst (get_page_content three_blocks_client ''p1'')) = Some (JBool True)"
    by (simp add: get_page_content_def get_page_content_body_def io_defs bnd_def
        three_blocks_client_def three_blocks_def text_block_def retrieve_call_def list_call_def
        page_title_def block_entry_def)
  have listed: "three_blocks_client [retrieve_call ''p1''] (list_call ''p1'') =
      Inr (JDict [(''results'', JList three_blocks)])"
    by (simp add: three_blocks_client_def list_call_def)
  have got: "py_get (JDict [(''results'', JList three_blocks)]) (JStr ''results'') (JList []) =
      Inr (JList three_blocks)"
    by simp
  from get_page_content_blocks [OF ok listed got] show ?thesis
    by (simp add: three_blocks_def text_block_def block_view_def extractBlockText_def
        fragment_text_def)
qed
section \<open>Where the handlers use the extracted title\<close>

lemma search_entry_title:
  "search_entry page = Inr entry \<Longrightarrow>
   \<exists>t. search_page_title page = Inr t \<and> field ''title'' entry = Some t"
  by (auto simp add: search_entry_def bnd_def split: sum.splits)

lemma get_page_content_title:
  "field ''success'' (fst (get_page_content notion page_id)) = Some (JBool True) \<Longrightarrow>
   \<exists>page t. notion [] (retrieve_call page_id) = Inr page \<and> page_title page = Inr t
     \<and> field ''title'' (fst (get_page_content notion page_id)) = Some t"
  by (auto simp add: get_page_content_def get_page_content_body_def io_defs bnd_def
      success_except split: sum.splits prod.splits)

lemma recent_lines_title:
  "recent_lines repr page = Inr ls \<Longrightarrow>
   \<exists>t. page_title page = Inr t \<and> hd ls = ''- **'' @ py_str repr t @ ''**''"
  by (auto simp add: recent_lines_def bnd_def split: sum.splits)

section \<open>Pages without a title\<close>

lemma scan_title_untitled:
  "list_all typed_descriptor (map snd props) \<Longrightarrow>
   list_all (\<lambda>d. \<not> title_tagged d \<or> \<not> truthy (title_sequence d)) (map snd props) \<Longrightarrow>
   scan_title props = Inr (JStr ''Untitled'')"
proof (induction props)
  case Nil
  then show ?case by simp
next
  case (Cons p props)
  obtain n pv where p: "p = (n, pv)" by (cases p)
  from Cons.prems p obtain d where d: "pv = JDict d" by (cases pv) auto
  from Cons.prems p d have "map_of d ''type'' \<noteq> Some (JStr ''title'') \<or>
      \<not> truthy (case map_of d ''title'' of None \<Rightarrow> JNull | Some t \<Rightarrow> t)"
    by (simp add: title_tagged_def title_sequence_def)
  with Cons p d show ?case by (auto split: option.splits)
qed

text \<open>
  Claim C8: for every page of the data model (typed descriptors) that has no title-tagged
  property, or whose title-tagged properties have an empty title sequence, the title
  extracted is exactly "Untitled": by the scan of \<open>get_page_content\<close> and
  \<open>get_recent_pages\<close>, and by the two-branch lookup of \<open>search_pages\<close>.
\<close>

theorem untitled_without_title_property:
  assumes "external_object page" and "lacks_title page"
  shows "search_page_title page = Inr (JStr ''Untitled'')
       \<and> page_title page = Inr (JStr ''Untitled'')"
proof -
  from assms(1) obtain kvs where page: "page = JDict kvs" by (cases page) auto
  show ?thesis
  proof (cases "map_of kvs ''properties''")
    case None
    with page show ?thesis
      by (simp add: search_page_title_def page_title_def bnd_def map_of_eq_None_iff)
  next
    case (Some pr)
    with assms(1) page obtain props where pr: "pr = JDict props"
      and typed: "list_all typed_descriptor (map snd props)"
      by (cases pr) auto
    from assms(2) page Some pr have
      lacks: "list_all (\<lambda>d. \<not> title_tagged d \<or> \<not> truthy (title_sequence d)) (map snd props)"
      by (simp add: lacks_title_def properties_of_def)
    note scan = scan_title_untitled [OF typed lacks]
    have has: "''properties'' \<in> fst ` set kvs"
      using Some by (rule map_of_Some_key)
    have pt: "page_title page = Inr (JStr ''Untitled'')"
      using page Some pr scan has by (simp add: page_title_def bnd_def)
    have st: "search_page_title page = Inr (JStr ''Untitled'')"
    proof (cases "map_of props ''title''")
      case None
      then have "''title'' \<notin> fst ` set props" by (simp add: map_of_eq_None_iff)
      with page Some pr scan has show ?thesis
        by (simp add: search_page_title_def bnd_def)
    next
      case (Some tp)
      then have mem: "tp \<in> set (map snd props)"
        by (simp add: map_of_Some_val)
      from Some have inkeys: "''title'' \<in> fst ` set props"
        by (rule map_of_Some_key)
      from mem typed have t1: "typed_descriptor tp" by (auto simp add: list_all_iff)
      from mem lacks have t2: "\<not> title_tagged tp \<or> \<not> truthy (title_sequence tp)"
        by (auto simp add: list_all_iff)
      from t1 obtain d where d: "tp = JDict d" by (cases tp) auto
      from t1 t2 d have "\<not> truthy (case map_of d ''title'' of None \<Rightarrow> JNull | Some t \<Rightarrow> t)"
        by (auto simp add: title_tagged_def title_sequence_def)
      with page \<open>map_of kvs ''properties'' = Some pr\<close> pr Some d has inkeys show ?thesis
        by (simp add: search_page_title_def bnd_def)
    qed
    from st pt show ?thesis by simp
  qed
qed

theorem untitled_without_title_property_witness:
  "external_object (titled_page ''title'' []) \<and> lacks_title (titled_page ''title'' [])
   \<and> search_page_title (titled_page ''title'' []) = Inr (JStr ''Untitled'')
   \<and> page_title (titled_page ''title'' []) = Inr (JStr ''Untitled'')"
proof -
  have a: "external_object (titled_page ''title'' [])" by (simp add: titled_page_def)
  have b: "lacks_title (titled_page ''title'' [])"
    by (simp add: titled_page_def lacks_title_def properties_of_def title_tagged_def title_sequence_def)
  from untitled_without_title_property [OF a b] a b show ?thesis by simp
qed

section \<open>Titles found by their tag\<close>

lemma first_plain_text_fragment:
  "map_of d ''title'' = Some (JList (JDict f # fs)) \<Longrightarrow> map_of f ''plain_text'' = Some t \<Longrightarrow>
   first_plain_text (JDict d) = Inr t"
  by (simp add: first_plain_text_def bnd_def)

lemma scan_title_by_tag:
  assumes "\<forall>(n, pv) \<in> set before. \<exists>b. pv = JDict b \<and>
             (\<not> title_tagged pv \<or> \<not> truthy (title_sequence pv))"
    and "title_tagged (JDict d)" and "truthy (title_sequence (JDict d))"
  shows "scan_title (before @ (name, JDict d) # rest) = first_plain_text (JDict d)"
  using assms
proof (induction before)
  case Nil
  then show ?case
    by (auto simp add: title_tagged_def title_sequence_def split: option.splits)
next
  case (Cons p before)
  obtain n pv where p: "p = (n, pv)" by (cases p)
  with Cons.prems obtain b where b: "pv = JDict b"
    and no: "\<not> title_tagged pv \<or> \<not> truthy (title_sequence pv)" by auto
  from Cons.prems have "\<forall>(n, pv) \<in> set before. \<exists>b. pv = JDict b \<and>
             (\<not> title_tagged pv \<or> \<not> truthy (title_sequence pv))" by simp
  from Cons.IH [OF this Cons.prems(2,3)] p b no show ?case
    by (auto simp add: title_tagged_def title_sequence_def split: option.splits)
qed

text \<open>
  In \<open>get_page_content\<close> and \<open>get_recent_pages\<close> the title is found by its tag, under any
  property name.
\<close>

lemma page_title_by_tag:
  assumes "map_of kvs ''properties'' = Some (JDict (before @ (name, JDict d) # rest))"
    and "\<forall>(n, pv) \<in> set before. \<exists>b. pv = JDict b \<and>
             (\<not> title_tagged pv \<or> \<not> truthy (title_sequence pv))"
    and "map_of d ''type'' = Some (JStr ''title'')"
    and "map_of d ''title'' = Some (JList (JDict f # fs))"
    and "map_of f ''plain_text'' = Some t"
  shows "page_title (JDict kvs) = Inr t"
proof -
  have tagged: "title_tagged (JDict d)" using assms(3) by (simp add: title_tagged_def)
  have seq: "truthy (title_sequence (JDict d))" using assms(4) by (simp add: title_sequence_def)
  from assms(1) have "''properties'' \<in> fst ` set kvs" by (rule map_of_Some_key)
  with assms(1) scan_title_by_tag [OF assms(2) tagged seq]
    first_plain_text_fragment [OF assms(4,5)]
  show ?thesis by (simp add: page_title_def bnd_def)
qed

text \<open>In \<open>search_pages\<close> the same holds as long as no property is named \<^verbatim>\<open>title\<close>.\<close>

lemma search_page_title_by_tag:
  assumes "map_of kvs ''properties'' = Some (JDict props)"
    and "props = before @ (name, JDict d) # rest"
    and "''title'' \<notin> fst ` set props"
    and "\<forall>(n, pv) \<in> set before. \<exists>b. pv = JDict b \<and>
             (\<not> title_tagged pv \<or> \<not> truthy (title_sequence pv))"
    and "map_of d ''type'' = Some (JStr ''title'')"
    and "map_of d ''title'' = Some (JList (JDict f # fs))"
    and "map_of f ''plain_text'' = Some t"
  shows "search_page_title (JDict kvs) = Inr t"
proof -
  have tagged: "title_tagged (JDict d)" using assms(5) by (simp add: title_tagged_def)
  have seq: "truthy (title_sequence (JDict d))" using assms(6) by (simp add: title_sequence_def)
  have scan: "scan_title props = Inr t"
    using scan_title_by_tag [OF assms(4) tagged seq] first_plain_text_fragment [OF assms(6,7)]
    by (simp add: assms(2))
  from assms(1) have "''properties'' \<in> fst ` set kvs" by (rule map_of_Some_key)
  with assms(1,3) scan show ?thesis by (simp add: search_page_title_def bnd_def)
qed

text \<open>
  Claim C3: wherever a property of any name is tagged \<^verbatim>\<open>title\<close> and has a non-empty
  title sequence, title extraction returns its first fragment's plain text, in
  \<open>search_pages\<close>, \<open>get_page_content\<close> and \<open>get_recent_pages\<close> alike. On a database row
  whose text column is named \<^verbatim>\<open>title\<close> and whose title column is named \<^verbatim>\<open>Name\<close>,
  \<open>get_page_content\<close> finds the title "Roadmap", but \<open>search_pages\<close> reports "Untitled":
  its scan is the \<^verbatim>\<open>elif\<close> branch, never reached once a property named \<^verbatim>\<open>title\<close> exists.
\<close>

theorem search_pages_misses_renamed_title:
  "search_page_title renamed_title_page = Inr (JStr ''Untitled'')
   \<and> page_title renamed_title_page = Inr (JStr ''Roadmap'')
   \<and> fst (search_pages renamed_title_client ''road'' 10) =
       JDict [(''success'', JBool True), (''count'', JInt 1),
         (''results'', JList [JDict [(''id'', JStr ''p1''), (''title'', JStr ''Untitled''),
            (''url'', JStr ''https://www.notion.so/p1''), (''last_edited'', JStr ''Unknown'')]])]
   \<and> field ''title'' (fst (get_page_content renamed_title_client ''p1'')) = Some (JStr ''Roadmap'')"
  by (simp add: search_pages_def search_pages_body_def search_call_def get_page_content_def
      get_page_content_body_def retrieve_call_def list_call_def io_defs renamed_title_client_def
      search_entry_def search_page_title_def page_title_def renamed_title_page_def bnd_def
      first_plain_text_def)

section \<open>Only the first fragment of a title\<close>

lemma truthy_keep_first: "truthy (keep_first v) = truthy v"
  by (cases v) (auto simp add: keep_first_def)

lemma getitem0_keep_first: "py_getitem0 (keep_first v) = py_getitem0 v"
proof (cases v)
  case (JList xs)
  then show ?thesis by (cases xs) (simp_all add: keep_first_def)
qed (simp_all add: keep_first_def)

lemma get_type_first_fragment:
  "py_get (descriptor_first_fragment pv) (JStr ''type'') JNull = py_get pv (JStr ''type'') JNull"
  by (cases pv) (simp_all add: descriptor_first_fragment_def map_of_map_values split: option.splits)

lemma get_title_first_fragment:
  "py_get (descriptor_first_fragment pv) (JStr ''title'') JNull =
     (case py_get pv (JStr ''title'') JNull of Inl e \<Rightarrow> Inl e | Inr t \<Rightarrow> Inr (keep_first t))"
  by (cases pv)
     (simp_all add: descriptor_first_fragment_def map_of_map_values keep_first_def
        split: option.splits)

lemma first_plain_text_first_fragment:
  "first_plain_text (descriptor_first_fragment pv) = first_plain_text pv"
  by (cases pv)
     (simp_all add: first_plain_text_def descriptor_first_fragment_def map_of_map_values bnd_def
        getitem0_keep_first split: option.splits)

lemma scan_title_first_fragment:
  "scan_title (map (\<lambda>(name, descriptor). (name, descriptor_first_fragment descriptor)) props) =
   scan_title props"
proof (induction props)
  case Nil
  then show ?case by simp
next
  case (Cons p props)
  obtain n pv where p: "p = (n, pv)" by (cases p)
  with Cons show ?case
    by (simp add: get_type_first_fragment get_title_first_fragment truthy_keep_first
        first_plain_text_first_fragment split: sum.splits)
qed

lemma contains_map_values:
  "py_contains k (JDict (map (\<lambda>(k, v). (k, g k v)) kvs)) = py_contains k (JDict kvs)"
  by (simp add: image_image case_prod_unfold)

lemma contains_page_first_fragment:
  "py_contains k (page_first_fragment page) = py_contains k page"
  unfolding page_first_fragment_def
  by (cases page) (simp_all only: json.case contains_map_values)

lemma getitem_page_first_fragment:
  "py_getitem (page_first_fragment page) ''properties'' =
     (case py_getitem page ''properties'' of
        Inl e \<Rightarrow> Inl e | Inr v \<Rightarrow> Inr (properties_first_fragment v))"
  unfolding page_first_fragment_def
  by (cases page) (simp_all add: map_of_map_values split: option.splits)

lemma contains_properties_first_fragment:
  "py_contains k (properties_first_fragment pr) = py_contains k pr"
  unfolding properties_first_fragment_def
  by (cases pr) (simp_all only: json.case contains_map_values)

lemma getitem_properties_first_fragment:
  "py_getitem (properties_first_fragment pr) k =
     (case py_getitem pr k of Inl e \<Rightarrow> Inl e | Inr v \<Rightarrow> Inr (descriptor_first_fragment v))"
  unfolding properties_first_fragment_def
  by (cases pr) (simp_all add: map_of_map_values split: option.splits)

lemma items_properties_first_fragment:
  "py_items (properties_first_fragment pr) =
     (case py_items pr of
        Inl e \<Rightarrow> Inl e
      | Inr ps \<Rightarrow> Inr (map (\<lambda>(name, descriptor). (name, descriptor_first_fragment descriptor)) ps))"
  unfolding properties_first_fragment_def
  by (cases pr) simp_all

lemmas first_fragment_simps =
  contains_page_first_fragment getitem_page_first_fragment contains_properties_first_fragment
  getitem_properties_first_fragment items_properties_first_fragment scan_title_first_fragment
  get_title_first_fragment truthy_keep_first first_plain_text_first_fragment

lemma page_title_first_fragment: "page_title (page_first_fragment page) = page_title page"
  by (simp add: page_title_def bnd_def first_fragment_simps split: sum.splits)

lemma search_page_title_first_fragment:
  "search_page_title (page_first_fragment page) = search_page_title page"
  by (simp add: search_page_title_def bnd_def first_fragment_simps split: sum.splits)

lemma titled_page_title:
  "page_title (titled_page name (t # ts)) = Inr (JStr t)
   \<and> search_page_title (titled_page name (t # ts)) = Inr (JStr t)"
  by (simp add: page_title_def search_page_title_def titled_page_def bnd_def first_plain_text_def)

lemma parts_of_text_block:
  "map_exn (\<lambda>rt. py_get rt (JStr ''plain_text'') (JStr []))
     (map (\<lambda>s. JDict [(''type'', JStr ''text''), (''plain_text'', JStr s)]) texts) =
   Inr (map JStr texts)"
  by (induction texts) auto

lemma join_strs: "py_join i (map JStr texts) = Inr (concat texts)"
  by (induction texts arbitrary: i) auto

lemma block_entry_paragraph:
  "block_entry (text_block ''paragraph'' texts) =
     Inr (if concat texts = [] then None
          else Some (JDict [(''type'', JStr ''paragraph''), (''text'', JStr (concat texts))]))"
  by (simp add: block_entry_def text_block_def bnd_def parts_of_text_block join_strs)

text \<open>
  Where title extraction reaches the title property it uses the first fragment only:
  cutting every title sequence of a page down to its first fragment changes the
  extracted title nowhere, and a title property of any name with fragments \<open>t, ts\<close>
  yields \<open>t\<close>; block text, in contrast, is the concatenation of all fragments.
\<close>

lemma title_ignores_later_fragments:
  "page_title (page_first_fragment page) = page_title page
   \<and> search_page_title (page_first_fragment page) = search_page_title page
   \<and> page_title (titled_page name (t # ts)) = Inr (JStr t)
   \<and> search_page_title (titled_page name (t # ts)) = Inr (JStr t)
   \<and> block_entry (text_block ''paragraph'' (t # ts)) =
        Inr (if concat (t # ts) = [] then None
             else Some (JDict [(''type'', JStr ''paragraph''),
                               (''text'', JStr (concat (t # ts)))]))"
  using page_title_first_fragment [of page] search_page_title_first_fragment [of page]
    titled_page_title [of name t ts] block_entry_paragraph [of "t # ts"]
  by simp

text \<open>
  Claim C10: a title-tagged property with several fragments yields its first fragment's
  plain text, without concatenation, in \<open>search_pages\<close>, \<open>get_page_content\<close> and
  \<open>get_recent_pages\<close> alike. On the database row whose text column is named \<^verbatim>\<open>title\<close>
  and whose title column \<^verbatim>\<open>Name\<close> holds the fragments "Road" and "map",
  \<open>get_page_content\<close> returns "Road", but \<open>search_pages\<close> returns "Untitled": the
  \<^verbatim>\<open>elif\<close> of line 170 keeps the scan from the title property.
\<close>

theorem search_pages_two_fragment_title_untitled:
  "search_page_title renamed_two_fragment_page = Inr (JStr ''Untitled'')
   \<and> page_title renamed_two_fragment_page = Inr (JStr ''Road'')
   \<and> fst (search_pages renamed_two_fragment_client ''road'' 10) =
       JDict [(''success'', JBool True), (''count'', JInt 1),
         (''results'', JList [JDict [(''id'', JStr ''p1''), (''title'', JStr ''Untitled''),
            (''url'', JStr ''https://www.notion.so/p1''), (''last_edited'', JStr ''Unknown'')]])]
   \<and> field ''title'' (fst (get_page_content renamed_two_fragment_client ''p1'')) =
       Some (JStr ''Road'')"
  by (simp add: search_pages_def search_pages_body_def search_call_def get_page_content_def
      get_page_content_body_def retrieve_call_def list_call_def io_defs
      renamed_two_fragment_client_def search_entry_def search_page_title_def page_title_def
      renamed_two_fragment_page_def bnd_def first_plain_text_def)

end
